theory Spec2Isabelle
  imports Main "HOL-Library.Sublist"
begin

section \<open>The formatting library, as far as the repository uses it\<close>

text \<open>
  The repository renders its strings with Go's \<^verbatim>\<open>fmt.Sprintf\<close> and \<^verbatim>\<open>fmt.Errorf\<close>.
  The operands it passes are strings and integers. Go's \<^verbatim>\<open>int\<close> is modelled as
  \<open>int\<close>: no arithmetic is done on these values, they are only compared and printed.
\<close>

datatype arg = AStr string | AInt int

text \<open>Decimal digits of a natural number, most significant first, as \<^verbatim>\<open>%d\<close> prints them.\<close>

definition digit_char :: "nat \<Rightarrow> char" where
  "digit_char d = ''0123456789'' ! d"

function show_nat :: "nat \<Rightarrow> string" where
  "show_nat n = (if n < 10 then [digit_char n] else show_nat (n div 10) @ [digit_char (n mod 10)])"
  by pat_completeness auto
termination
  by (relation "measure (\<lambda>n. n)") auto

declare show_nat.simps [simp del]

definition show_int :: "int \<Rightarrow> string" where
  "show_int i = (if i < 0 then CHR ''-'' # show_nat (nat (- i)) else show_nat (nat i))"

text \<open>Reading a decimal numeral back, to state that \<open>show_nat\<close> prints the number it is given.\<close>

definition digit_val :: "char \<Rightarrow> nat" where
  "digit_val c = of_char c - 48"

definition read_nat :: "string \<Rightarrow> nat" where
  "read_nat s = foldl (\<lambda>n c. 10 * n + digit_val c) 0 s"

fun type_name :: "arg \<Rightarrow> string" where
  "type_name (AStr s) = ''string''"
| "type_name (AInt i) = ''int''"

text \<open>The default rendering of an operand (the verb \<^verbatim>\<open>%v\<close>).\<close>

fun plain :: "arg \<Rightarrow> string" where
  "plain (AStr s) = s"
| "plain (AInt i) = show_int i"

text \<open>What the library prints for a verb that is not defined for the operand's type.\<close>

definition bad_verb :: "char \<Rightarrow> arg \<Rightarrow> string" where
  "bad_verb v a = ''%!'' @ [v] @ ''('' @ type_name a @ ''='' @ plain a @ '')''"

fun print_verb :: "char \<Rightarrow> arg \<Rightarrow> string" where
  "print_verb v (AStr s) = (if v = CHR ''s'' \<or> v = CHR ''v'' then s else bad_verb v (AStr s))"
| "print_verb v (AInt i) = (if v = CHR ''d'' \<or> v = CHR ''v'' then show_int i else bad_verb v (AInt i))"

fun extra_args :: "arg list \<Rightarrow> string" where
  "extra_args [] = []"
| "extra_args [a] = type_name a @ ''='' @ plain a"
| "extra_args (a # b # as) = type_name a @ ''='' @ plain a @ '', '' @ extra_args (b # as)"

text \<open>
  \<open>Sprintf\<close> walks the format string. The verbs modelled are \<^verbatim>\<open>%s\<close>, \<^verbatim>\<open>%d\<close>,
  \<^verbatim>\<open>%v\<close> and \<^verbatim>\<open>%%\<close>, with the library's markers for a missing operand, for operands
  left over and for a format that ends in a percent sign. Flags, width, precision and the
  other verbs the library defines for strings and integers do not occur in the format
  strings that this development evaluates, and are outside this model: a verb other than the
  three above is printed as a verb undefined for its operand.
\<close>

fun Sprintf :: "string \<Rightarrow> arg list \<Rightarrow> string" where
  "Sprintf [] [] = []"
| "Sprintf [] (a # as) = ''%!(EXTRA '' @ extra_args (a # as) @ '')''"
| "Sprintf (c # fs) as =
     (if c \<noteq> CHR ''%'' then c # Sprintf fs as
      else (case fs of
              [] \<Rightarrow> ''%!(NOVERB)'' @ Sprintf [] as
            | v # fs' \<Rightarrow>
                if v = CHR ''%'' then CHR ''%'' # Sprintf fs' as
                else (case as of
                        [] \<Rightarrow> ''%!'' @ [v] @ ''(MISSING)'' @ Sprintf fs' []
                      | a # as' \<Rightarrow> print_verb v a @ Sprintf fs' as')))"

section \<open>The configuration (config.go)\<close>

record Config =
  Host :: string
  Port :: int
  User :: string
  Pass :: string
  Name :: string
  MaxConnectionPool :: int
  MinConnectionPool :: int
  Timezone :: string

definition Config_String :: "Config \<Rightarrow> string" where
  "Config_String cfg =
     Sprintf ''user=%s password=%s dbname=%s port=%d host=%s min-pool=%d max-pool=%d''
       [AStr (User cfg), AStr (Pass cfg), AStr (Name cfg), AInt (Port cfg), AStr (Host cfg),
        AInt (MinConnectionPool cfg), AInt (MaxConnectionPool cfg)]"

definition Config_DSN :: "Config \<Rightarrow> string" where
  "Config_DSN cfg =
     Sprintf ''user=%s password=%s dbname=%s port=%d host=%s sslmode=disable TimeZone=%s''
       [AStr (User cfg), AStr (Pass cfg), AStr (Name cfg), AInt (Port cfg), AStr (Host cfg),
        AStr (Timezone cfg)]"

section \<open>The mapper library, as far as the repository calls it\<close>

text \<open>
  An error value is kept as its message, the string \<^verbatim>\<open>err.Error()\<close> returns.
\<close>

type_synonym go_error = string

text \<open>
  The driver handle (\<^verbatim>\<open>*sql.DB\<close>) is kept as the pool-size setter calls it has received, oldest
  first: the setters' own effect belongs to the driver.
\<close>

datatype sql_call = SetMaxOpenConns int | SetMaxIdleConns int

record sqlDB =
  calls :: "sql_call list"

text \<open>
  A logger of this repository lives in a store of loggers and is referred to by its address,
  an index into the store; a pointer is an \<open>addr option\<close>, \<open>None\<close> being \<^verbatim>\<open>nil\<close>.
\<close>

type_synonym addr = nat

datatype gorm_logger = DefaultLogger | DbLogger addr

text \<open>
  The mapper's database object: \<open>handle\<close> is what its method \<^verbatim>\<open>DB()\<close> returns, the driver
  handle or an error; \<open>Logger\<close> is its logger field.
\<close>

record gormDB =
  handle :: "go_error + sqlDB"
  Logger :: gorm_logger

record postgres_Config =
  pg_DSN :: string
  PreferSimpleProtocol :: bool

text \<open>
  Modelled from the spec: the log levels and the logger configuration are declared in the
  external mapper library (\<^verbatim>\<open>gorm.io/gorm/logger\<close>), which is not part of the sources. The
  levels are integers, in the library's order \<^verbatim>\<open>Silent\<close>, \<^verbatim>\<open>Error\<close>, \<^verbatim>\<open>Warn\<close>, \<^verbatim>\<open>Info\<close>,
  counted from one. A duration is a number of nanoseconds.
\<close>

definition logger_Silent :: int where "logger_Silent = 1"
definition logger_Error :: int where "logger_Error = 2"
definition logger_Warn :: int where "logger_Warn = 3"
definition logger_Info :: int where "logger_Info = 4"

definition Millisecond :: int where "Millisecond = 1000000"

record logger_Config =
  SlowThreshold :: int
  Colorful :: bool
  IgnoreRecordNotFoundError :: bool
  ParameterizedQueries :: bool
  LogLevel :: int

text \<open>
  A writer (\<^verbatim>\<open>logger.Writer\<close>) is an interface with the one method \<^verbatim>\<open>Printf\<close>. The model keeps
  which writer a logger holds, and gives the calls of \<^verbatim>\<open>Printf\<close> that a method makes on it as
  the method's result: the format string and the operands. The operands are the values the
  logger passes: a string, an error, the elapsed time in milliseconds as a floating-point
  number (kept as the nanoseconds it is computed from), a row count, and the slow-query
  notice \<^verbatim>\<open>fmt.Sprintf("SLOW SQL >= %v", d)\<close> (kept as the duration \<open>d\<close>).
\<close>

type_synonym writer = nat

datatype logged = LString string | LError go_error | LMillis int | LRows int | LSlowLog int

type_synonym printf_call = "string \<times> logged list"

section \<open>The connection (postgresql.go)\<close>

record PostgreSQL =
  DB :: gormDB
  dbLogger :: "addr option"

definition SetMaxConnectionPool :: "PostgreSQL \<Rightarrow> int \<Rightarrow> PostgreSQL \<times> go_error option" where
  "SetMaxConnectionPool db n =
     (case handle (DB db) of
        Inl err \<Rightarrow> (db, Some (Sprintf ''failed to get sql db; %s'' [AStr err]))
      | Inr sqlDB \<Rightarrow>
          (db\<lparr>DB := (DB db)\<lparr>handle := Inr (sqlDB\<lparr>calls := calls sqlDB @ [SetMaxOpenConns n]\<rparr>)\<rparr>\<rparr>,
           None))"

definition SetMinConnectionPool :: "PostgreSQL \<Rightarrow> int \<Rightarrow> PostgreSQL \<times> go_error option" where
  "SetMinConnectionPool db n =
     (case handle (DB db) of
        Inl err \<Rightarrow> (db, Some (Sprintf ''failed to get sql db; %s'' [AStr err]))
      | Inr sqlDB \<Rightarrow>
          (db\<lparr>DB := (DB db)\<lparr>handle := Inr (sqlDB\<lparr>calls := calls sqlDB @ [SetMaxIdleConns n]\<rparr>)\<rparr>\<rparr>,
           None))"

text \<open>
  \<open>CreatePostgreSQL\<close> receives its configuration by pointer (taken to be non-nil) and may
  write to it, so the configuration after the call is part of the outcome, together with the argument of the
  mapper's open call and the value returned. The open call itself (\<^verbatim>\<open>gorm.Open\<close> on
  \<^verbatim>\<open>postgres.New\<close>) is a parameter: it answers with a database object or an error.
\<close>

record create_outcome =
  cfg_after :: Config
  opened :: postgres_Config
  returned :: "go_error + PostgreSQL"

definition CreatePostgreSQL ::
  "(postgres_Config \<Rightarrow> go_error + gormDB) \<Rightarrow> Config \<Rightarrow> create_outcome" where
  "CreatePostgreSQL gorm_Open cfg0 =
     (let cfg = (if Timezone cfg0 = [] then cfg0\<lparr>Timezone := ''Asia/Jakarta''\<rparr> else cfg0);
          pc = \<lparr>pg_DSN = Config_DSN cfg, PreferSimpleProtocol = True\<rparr>
      in \<lparr>cfg_after = cfg, opened = pc,
          returned =
            (case gorm_Open pc of
               Inl err \<Rightarrow> Inl (Sprintf ''failed to connect database; %s'' [AStr err])
             | Inr gormDB \<Rightarrow>
                 (let db = \<lparr>DB = gormDB, dbLogger = None\<rparr>;
                      (db1, err1) =
                        (if MaxConnectionPool cfg \<le> 0
                         then SetMaxConnectionPool db (MaxConnectionPool cfg)
                         else (db, None))
                  in case err1 of
                       Some e \<Rightarrow> Inl e
                     | None \<Rightarrow>
                         (case SetMinConnectionPool db1 (MinConnectionPool cfg) of
                            (db2, Some e) \<Rightarrow> Inl e
                          | (db2, None) \<Rightarrow> Inr db2)))\<rparr>)"

section \<open>The logger\<close>

record dbLogger =
  Writer :: writer
  Config :: logger_Config
  infoStr :: string
  warnStr :: string
  errStr :: string
  traceStr :: string
  traceWarnStr :: string
  traceErrStr :: string

type_synonym store = "dbLogger list"

text \<open>The escape character, written \<^verbatim>\<open>\033\<close> in the source.\<close>

definition ESC :: string where
  "ESC = [CHR 0x1B]"

text \<open>\<open>NewLogger\<close> allocates the new logger at the end of the store and returns its address.\<close>

definition NewLogger :: "store \<Rightarrow> writer \<Rightarrow> logger_Config \<Rightarrow> store \<times> addr" where
  "NewLogger h writer config =
     (if Colorful config then
        (h @ [\<lparr>Writer = writer, Config = config,
                infoStr = ESC @ ''[0m'' @ ESC @ ''[32m[info] %s'' @ ESC @ ''[0m'',
                warnStr = ESC @ ''[0m'' @ ESC @ ''[35m[warn] %s'' @ ESC @ ''[0m'',
                errStr = ESC @ ''[0m'' @ ESC @ ''[31m[error] %s'' @ ESC @ ''[0m'',
                traceStr = ESC @ ''[33m[%.3fms] '' @ ESC @ ''[34;1m[rows:%v]'' @ ESC @ ''[0m %s'',
                traceWarnStr = ESC @ ''[33m%s '' @ ESC @ ''[0m'' @ ESC @ ''[31;1m[%.3fms] '' @ ESC @
                  ''[33m[rows:%v]'' @ ESC @ ''[35m %s'' @ ESC @ ''[0m'',
                traceErrStr = ESC @ ''[35;1m%s '' @ ESC @ ''[0m'' @ ESC @ ''[33m[%.3fms] '' @ ESC @
                  ''[34;1m[rows:%v]'' @ ESC @ ''[0m %s''\<rparr>],
         length h)
      else
        (h @ [\<lparr>Writer = writer, Config = config,
                infoStr = ''[info] %s'',
                warnStr = ''[warn] %s'',
                errStr = ''[error] %s'',
                traceStr = ''[%.3fms] [rows:%v] %s'',
                traceWarnStr = ''%s [%.3fms] [rows:%v] %s'',
                traceErrStr = ''%s [%.3fms] [rows:%v] %s''\<rparr>],
         length h))"

text \<open>
  Reading through a pointer: \<^verbatim>\<open>nil\<close>, or an address the store does not hold, has no value
  (the program panics).
\<close>

definition deref :: "store \<Rightarrow> addr option \<Rightarrow> dbLogger option" where
  "deref h p = (case p of None \<Rightarrow> None | Some a \<Rightarrow> if a < length h then Some (h ! a) else None)"

text \<open>
  \<open>LogMode\<close> copies the logger its receiver points to, sets the level in the copy, and
  returns the address of the copy.
\<close>

definition LogMode :: "store \<Rightarrow> addr option \<Rightarrow> int \<Rightarrow> (store \<times> addr) option" where
  "LogMode h l level =
     (case deref h l of
        None \<Rightarrow> None
      | Some v \<Rightarrow>
          (let newLogger = v;
               newLogger = newLogger\<lparr>Config := (Config newLogger)\<lparr>LogLevel := level\<rparr>\<rparr>
           in Some (h @ [newLogger], length h)))"

text \<open>
  The methods below only read their receiver, and are given the logger it points to. The
  writer is taken to be present. Their result is the list of \<^verbatim>\<open>Printf\<close> calls made on the
  logger's writer. The message of \<open>Info\<close>, \<open>Warn\<close> and \<open>Error\<close> is any format string, with
  strings and integers as operands; where it uses more of the formatting library than
  \<open>Sprintf\<close> models, the text of the operand passed on is not the library's, and nothing
  below depends on that text.
\<close>

definition Info :: "dbLogger \<Rightarrow> string \<Rightarrow> arg list \<Rightarrow> printf_call list" where
  "Info l msg data =
     (if LogLevel (Config l) \<ge> logger_Info then [(infoStr l, [LString (Sprintf msg data)])] else [])"

definition Warn :: "dbLogger \<Rightarrow> string \<Rightarrow> arg list \<Rightarrow> printf_call list" where
  "Warn l msg data =
     (if LogLevel (Config l) \<ge> logger_Warn then [(warnStr l, [LString (Sprintf msg data)])] else [])"

definition Error :: "dbLogger \<Rightarrow> string \<Rightarrow> arg list \<Rightarrow> printf_call list" where
  "Error l msg data =
     (if LogLevel (Config l) \<ge> logger_Error then [(errStr l, [LString (Sprintf msg data)])] else [])"

text \<open>
  \<open>Trace\<close> reads the clock: \<open>elapsed\<close> is the duration \<^verbatim>\<open>time.Since(begin)\<close> returns, in
  nanoseconds. The callback \<open>fc\<close> is given by the pair it returns, the statement and the row
  count; \<open>err\<close> is \<open>None\<close> for \<^verbatim>\<open>nil\<close>.
\<close>

definition Trace :: "dbLogger \<Rightarrow> int \<Rightarrow> string \<times> int \<Rightarrow> go_error option \<Rightarrow> printf_call list" where
  "Trace l elapsed fc err =
     (if LogLevel (Config l) \<le> logger_Silent then []
      else if err \<noteq> None \<and> LogLevel (Config l) \<ge> logger_Error then
        (let (sql, rows) = fc
         in [(traceErrStr l, [LError (the err), LMillis elapsed, LRows rows, LString sql])])
      else if elapsed > SlowThreshold (Config l) \<and> SlowThreshold (Config l) \<noteq> 0
              \<and> LogLevel (Config l) \<ge> logger_Warn then
        (let (sql, rows) = fc;
             slowLog = LSlowLog (SlowThreshold (Config l))
         in [(traceWarnStr l, [slowLog, LMillis elapsed, LRows rows, LString sql])])
      else if LogLevel (Config l) = logger_Info then
        (let (sql, rows) = fc
         in [(traceStr l, [LMillis elapsed, LRows rows, LString sql])])
      else [])"

text \<open>\<open>SetLogger\<close> writes both the connection's own logger pointer and the mapper's logger field.\<close>

definition SetLogger :: "store \<Rightarrow> PostgreSQL \<Rightarrow> writer \<Rightarrow> store \<times> PostgreSQL" where
  "SetLogger h db writer =
     (let config = \<lparr>SlowThreshold = 200 * Millisecond, Colorful = True,
                    IgnoreRecordNotFoundError = False, ParameterizedQueries = False,
                    LogLevel = logger_Warn\<rparr>;
          (h', p) = NewLogger h writer config
      in (h', db\<lparr>dbLogger := Some p, DB := (DB db)\<lparr>Logger := DbLogger p\<rparr>\<rparr>))"

section \<open>Concrete inputs\<close>

text \<open>
  The configuration of the example in the package comment of config.go, and the one of the
  README's usage example.
\<close>

definition example_cfg :: Config where
  "example_cfg = \<lparr>Host = ''localhost'', Port = 5432, User = ''user'', Pass = ''password'',
     Name = ''mydatabase'', MaxConnectionPool = 10, MinConnectionPool = 2,
     Timezone = ''Asia/Jakarta''\<rparr>"

definition readme_cfg :: Config where
  "readme_cfg = \<lparr>Host = ''localhost'', Port = 5432, User = ''username'', Pass = ''password'',
     Name = ''dbname'', MaxConnectionPool = 20, MinConnectionPool = 5,
     Timezone = ''Asia/Jakarta''\<rparr>"

text \<open>An open call that succeeds, with a driver handle that has received no call yet.\<close>

definition open_ok :: "postgres_Config \<Rightarrow> go_error + gormDB" where
  "open_ok pc = Inr \<lparr>handle = Inr \<lparr>calls = []\<rparr>, Logger = DefaultLogger\<rparr>"

text \<open>An open call that fails, with the connection string it was given as the error's message.\<close>

definition open_echo :: "postgres_Config \<Rightarrow> go_error + gormDB" where
  "open_echo pc = Inl (pg_DSN pc)"

text \<open>A connection whose mapper object cannot give its driver handle.\<close>

definition closed_db :: PostgreSQL where
  "closed_db = \<lparr>DB = \<lparr>handle = Inl ''invalid db'', Logger = DefaultLogger\<rparr>, dbLogger = None\<rparr>"

text \<open>The logger \<open>NewLogger\<close> builds without colours, at a given level, with a 200 ms threshold.\<close>

definition plain_logger :: "int \<Rightarrow> dbLogger" where
  "plain_logger level =
     fst (NewLogger [] 0 \<lparr>SlowThreshold = 200 * Millisecond, Colorful = False,
            IgnoreRecordNotFoundError = False, ParameterizedQueries = False,
            LogLevel = level\<rparr>) ! 0"

section \<open>Rendering the configuration\<close>

lemma digit_val_digit_char: "d < 10 \<Longrightarrow> digit_val (digit_char d) = d"
proof -
  assume "d < 10"
  then have "d \<in> {0, 1, 2, 3, 4, 5, 6, 7, 8, 9}" by auto
  then show ?thesis by (auto simp: digit_val_def digit_char_def)
qed

lemma read_nat_show_nat: "read_nat (show_nat n) = n"
proof (induction n rule: show_nat.induct)
  case (1 n)
  show ?case
  proof (cases "n < 10")
    case True
    then show ?thesis
      by (simp add: show_nat.simps [of n] read_nat_def digit_val_digit_char)
  next
    case False
    with 1 have "read_nat (show_nat (n div 10)) = n div 10" by simp
    with False show ?thesis
      by (simp add: show_nat.simps [of n] read_nat_def digit_val_digit_char)
  qed
qed

lemma Config_DSN_render:
  "Config_DSN cfg =
     ''user='' @ User cfg @ '' password='' @ Pass cfg @ '' dbname='' @ Name cfg @
     '' port='' @ show_int (Port cfg) @ '' host='' @ Host cfg @
     '' sslmode=disable TimeZone='' @ Timezone cfg"
  by (simp add: Config_DSN_def)

lemma Config_String_render:
  "Config_String cfg =
     ''user='' @ User cfg @ '' password='' @ Pass cfg @ '' dbname='' @ Name cfg @
     '' port='' @ show_int (Port cfg) @ '' host='' @ Host cfg @
     '' min-pool='' @ show_int (MinConnectionPool cfg) @
     '' max-pool='' @ show_int (MaxConnectionPool cfg)"
  by (simp add: Config_String_def)

text \<open>
  C3. For every configuration, \<open>Config_DSN\<close> is exactly the string
  \<^verbatim>\<open>user=<u> password=<p> dbname=<n> port=<port> host=<h> sslmode=disable TimeZone=<tz>\<close>,
  each placeholder replaced by the field's value, the port in decimal.
\<close>

theorem Config_DSN_format:
  "Config_DSN cfg =
     ''user='' @ User cfg @ '' password='' @ Pass cfg @ '' dbname='' @ Name cfg @
     '' port='' @ show_int (Port cfg) @ '' host='' @ Host cfg @
     '' sslmode=disable TimeZone='' @ Timezone cfg"
  by (simp add: Config_DSN_def)

theorem Config_DSN_format_witness:
  "Config_DSN example_cfg =
     ''user=user password=password dbname=mydatabase port=5432 host=localhost sslmode=disable TimeZone=Asia/Jakarta''"
  using Config_DSN_format [of example_cfg]
  by (simp add: example_cfg_def show_int_def show_nat.simps digit_char_def)

text \<open>
  C4. For every configuration, \<open>Config_String\<close> is exactly the string
  \<^verbatim>\<open>user=<u> password=<p> dbname=<n> port=<port> host=<h> min-pool=<min> max-pool=<max>\<close>,
  each placeholder replaced by the field's value, and the password occurs verbatim in the
  output of both \<open>Config_String\<close> and \<open>Config_DSN\<close>.
\<close>

theorem Config_String_format:
  "Config_String cfg =
     ''user='' @ User cfg @ '' password='' @ Pass cfg @ '' dbname='' @ Name cfg @
     '' port='' @ show_int (Port cfg) @ '' host='' @ Host cfg @
     '' min-pool='' @ show_int (MinConnectionPool cfg) @
     '' max-pool='' @ show_int (MaxConnectionPool cfg)
   \<and> sublist (Pass cfg) (Config_String cfg) \<and> sublist (Pass cfg) (Config_DSN cfg)"
proof -
  have s: "sublist (Pass cfg) (Config_String cfg)"
    unfolding Config_String_render sublist_def by (metis append.assoc)
  have d: "sublist (Pass cfg) (Config_DSN cfg)"
    unfolding Config_DSN_render sublist_def by (metis append.assoc)
  show ?thesis using s d Config_String_render by blast
qed

theorem Config_String_format_witness:
  "Config_String example_cfg =
     ''user=user password=password dbname=mydatabase port=5432 host=localhost min-pool=2 max-pool=10''
   \<and> sublist ''password'' (Config_String example_cfg)
   \<and> sublist ''password'' (Config_DSN example_cfg)"
proof -
  have p: "Pass example_cfg = ''password''"
    by (simp add: example_cfg_def)
  have r: "Config_String example_cfg =
     ''user=user password=password dbname=mydatabase port=5432 host=localhost min-pool=2 max-pool=10''"
    by (simp add: Config_String_def example_cfg_def show_int_def show_nat.simps digit_char_def)
  from Config_String_format [of example_cfg] r show ?thesis
    unfolding p by blast
qed

text \<open>
  C5, as stated, fails: the display string is not redacted. Two configurations that differ
  only in the password have different display strings.
\<close>

theorem Config_String_redacted_counterexample:
  "Config_String (example_cfg\<lparr>Pass := ''password''\<rparr>) \<noteq>
   Config_String (example_cfg\<lparr>Pass := ''secret''\<rparr>)"
  by (simp add: Config_String_def example_cfg_def)

text \<open>
  C5, amended. The display string shows the password: whenever two configurations differ
  only in the password, their display strings differ.
\<close>

theorem Config_String_shows_password:
  "p \<noteq> q \<Longrightarrow> Config_String (cfg\<lparr>Pass := p\<rparr>) \<noteq> Config_String (cfg\<lparr>Pass := q\<rparr>)"
  by (simp add: Config_String_render)

theorem Config_String_shows_password_witness:
  "''hunter2'' \<noteq> ''secret'' \<and>
   Config_String (example_cfg\<lparr>Pass := ''hunter2''\<rparr>) \<noteq>
   Config_String (example_cfg\<lparr>Pass := ''secret''\<rparr>)"
  using Config_String_shows_password [of "''hunter2''" "''secret''" example_cfg] by simp

section \<open>Opening the connection\<close>

text \<open>
  C1. The claim is that a successful \<open>CreatePostgreSQL\<close> has called the max-open-connections
  setter with the configured maximum. With the README's configuration (maximum 20, minimum 5)
  and an open call that succeeds, the connection is returned and the only call the driver
  handle has received is the one for the idle connections: the maximum is not applied.
\<close>

theorem CreatePostgreSQL_max_pool_not_applied:
  "returned (CreatePostgreSQL open_ok readme_cfg) =
     Inr \<lparr>DB = \<lparr>handle = Inr \<lparr>calls = [SetMaxIdleConns 5]\<rparr>, Logger = DefaultLogger\<rparr>,
          dbLogger = None\<rparr>"
  by (simp add: CreatePostgreSQL_def Let_def readme_cfg_def open_ok_def SetMinConnectionPool_def)

text \<open>
  C6. When the configuration's time zone is empty, \<open>CreatePostgreSQL\<close> sets it to
  \<^verbatim>\<open>Asia/Jakarta\<close> before the connection string is built: the caller's configuration holds
  the default afterwards, and the open call is made on the connection string of the
  configuration with the default, which ends in \<^verbatim>\<open>TimeZone=Asia/Jakarta\<close>. That this is the
  argument the open call receives is stated for every open call: the outcome depends on the
  open call only through its answer on that connection string, and an error it answers there
  is the one returned, behind the fixed text. A configuration with a non-empty time zone is
  left as it is, and the open call is made on its own connection string.
\<close>

theorem CreatePostgreSQL_timezone:
  "(Timezone cfg = [] \<longrightarrow>
      cfg_after (CreatePostgreSQL gorm_Open cfg) = cfg\<lparr>Timezone := ''Asia/Jakarta''\<rparr> \<and>
      pg_DSN (opened (CreatePostgreSQL gorm_Open cfg)) =
        Config_DSN (cfg\<lparr>Timezone := ''Asia/Jakarta''\<rparr>) \<and>
      suffix ''TimeZone=Asia/Jakarta'' (pg_DSN (opened (CreatePostgreSQL gorm_Open cfg))) \<and>
      CreatePostgreSQL gorm_Open cfg =
        CreatePostgreSQL
          (\<lambda>pc. gorm_Open \<lparr>pg_DSN = Config_DSN (cfg\<lparr>Timezone := ''Asia/Jakarta''\<rparr>),
                            PreferSimpleProtocol = True\<rparr>) cfg \<and>
      (gorm_Open \<lparr>pg_DSN = Config_DSN (cfg\<lparr>Timezone := ''Asia/Jakarta''\<rparr>),
                  PreferSimpleProtocol = True\<rparr> = Inl err \<longrightarrow>
         returned (CreatePostgreSQL gorm_Open cfg) = Inl (''failed to connect database; '' @ err))) \<and>
   (Timezone cfg \<noteq> [] \<longrightarrow>
      cfg_after (CreatePostgreSQL gorm_Open cfg) = cfg \<and>
      pg_DSN (opened (CreatePostgreSQL gorm_Open cfg)) = Config_DSN cfg \<and>
      CreatePostgreSQL gorm_Open cfg =
        CreatePostgreSQL
          (\<lambda>pc. gorm_Open \<lparr>pg_DSN = Config_DSN cfg, PreferSimpleProtocol = True\<rparr>) cfg \<and>
      (gorm_Open \<lparr>pg_DSN = Config_DSN cfg, PreferSimpleProtocol = True\<rparr> = Inl err \<longrightarrow>
         returned (CreatePostgreSQL gorm_Open cfg) = Inl (''failed to connect database; '' @ err)))"
proof -
  have "suffix ''TimeZone=Asia/Jakarta'' (Config_DSN (cfg\<lparr>Timezone := ''Asia/Jakarta''\<rparr>))"
    unfolding Config_DSN_render suffix_def by simp
  then show ?thesis
    by (simp add: CreatePostgreSQL_def Let_def)
qed

theorem CreatePostgreSQL_timezone_witness:
  "Timezone (example_cfg\<lparr>Timezone := []\<rparr>) = [] \<and>
   cfg_after (CreatePostgreSQL open_echo (example_cfg\<lparr>Timezone := []\<rparr>)) = example_cfg \<and>
   pg_DSN (opened (CreatePostgreSQL open_echo (example_cfg\<lparr>Timezone := []\<rparr>))) =
     ''user=user password=password dbname=mydatabase port=5432 host=localhost sslmode=disable TimeZone=Asia/Jakarta'' \<and>
   returned (CreatePostgreSQL open_echo (example_cfg\<lparr>Timezone := []\<rparr>)) =
     Inl ''failed to connect database; user=user password=password dbname=mydatabase port=5432 host=localhost sslmode=disable TimeZone=Asia/Jakarta'' \<and>
   Timezone (example_cfg\<lparr>Timezone := ''UTC''\<rparr>) \<noteq> [] \<and>
   cfg_after (CreatePostgreSQL open_echo (example_cfg\<lparr>Timezone := ''UTC''\<rparr>)) =
     example_cfg\<lparr>Timezone := ''UTC''\<rparr> \<and>
   pg_DSN (opened (CreatePostgreSQL open_echo (example_cfg\<lparr>Timezone := ''UTC''\<rparr>))) =
     ''user=user password=password dbname=mydatabase port=5432 host=localhost sslmode=disable TimeZone=UTC'' \<and>
   returned (CreatePostgreSQL open_echo (example_cfg\<lparr>Timezone := ''UTC''\<rparr>)) =
     Inl ''failed to connect database; user=user password=password dbname=mydatabase port=5432 host=localhost sslmode=disable TimeZone=UTC''"
proof -
  have j: "Config_DSN example_cfg =
     ''user=user password=password dbname=mydatabase port=5432 host=localhost sslmode=disable TimeZone=Asia/Jakarta''"
    by (simp add: example_cfg_def Config_DSN_render show_int_def show_nat.simps digit_char_def)
  have u: "Config_DSN (example_cfg\<lparr>Timezone := ''UTC''\<rparr>) =
     ''user=user password=password dbname=mydatabase port=5432 host=localhost sslmode=disable TimeZone=UTC''"
    by (simp add: example_cfg_def Config_DSN_render show_int_def show_nat.simps digit_char_def)
  have e: "example_cfg\<lparr>Timezone := ''Asia/Jakarta''\<rparr> = example_cfg"
    by (simp add: example_cfg_def)
  have t1: "Timezone (example_cfg\<lparr>Timezone := []\<rparr>) = []"
    by simp
  have t2: "Timezone (example_cfg\<lparr>Timezone := ''UTC''\<rparr>) \<noteq> []"
    by simp
  have o1: "open_echo \<lparr>pg_DSN = Config_DSN (example_cfg\<lparr>Timezone := [], Timezone := ''Asia/Jakarta''\<rparr>),
                        PreferSimpleProtocol = True\<rparr> =
            Inl (Config_DSN (example_cfg\<lparr>Timezone := ''Asia/Jakarta''\<rparr>))"
    by (simp add: open_echo_def)
  have o2: "open_echo \<lparr>pg_DSN = Config_DSN (example_cfg\<lparr>Timezone := ''UTC''\<rparr>),
                        PreferSimpleProtocol = True\<rparr> =
            Inl (Config_DSN (example_cfg\<lparr>Timezone := ''UTC''\<rparr>))"
    by (simp add: open_echo_def)
  from CreatePostgreSQL_timezone [of "example_cfg\<lparr>Timezone := []\<rparr>" open_echo
      "Config_DSN (example_cfg\<lparr>Timezone := ''Asia/Jakarta''\<rparr>)"] t1 o1
  have r1: "cfg_after (CreatePostgreSQL open_echo (example_cfg\<lparr>Timezone := []\<rparr>)) =
              example_cfg\<lparr>Timezone := [], Timezone := ''Asia/Jakarta''\<rparr> \<and>
            pg_DSN (opened (CreatePostgreSQL open_echo (example_cfg\<lparr>Timezone := []\<rparr>))) =
              Config_DSN (example_cfg\<lparr>Timezone := [], Timezone := ''Asia/Jakarta''\<rparr>) \<and>
            returned (CreatePostgreSQL open_echo (example_cfg\<lparr>Timezone := []\<rparr>)) =
              Inl (''failed to connect database; '' @
                   Config_DSN (example_cfg\<lparr>Timezone := ''Asia/Jakarta''\<rparr>))"
    by blast
  from CreatePostgreSQL_timezone [of "example_cfg\<lparr>Timezone := ''UTC''\<rparr>" open_echo
      "Config_DSN (example_cfg\<lparr>Timezone := ''UTC''\<rparr>)"] t2 o2
  have r2: "cfg_after (CreatePostgreSQL open_echo (example_cfg\<lparr>Timezone := ''UTC''\<rparr>)) =
              example_cfg\<lparr>Timezone := ''UTC''\<rparr> \<and>
            pg_DSN (opened (CreatePostgreSQL open_echo (example_cfg\<lparr>Timezone := ''UTC''\<rparr>))) =
              Config_DSN (example_cfg\<lparr>Timezone := ''UTC''\<rparr>) \<and>
            returned (CreatePostgreSQL open_echo (example_cfg\<lparr>Timezone := ''UTC''\<rparr>)) =
              Inl (''failed to connect database; '' @
                   Config_DSN (example_cfg\<lparr>Timezone := ''UTC''\<rparr>))"
    by blast
  show ?thesis
    using r1 r2 by (simp add: j u e)
qed

text \<open>
  C8. Each pool setter returns an error exactly when the mapper object cannot give its driver
  handle. The error is then the underlying error's message behind the fixed text
  \<^verbatim>\<open>failed to get sql db; \<close>, and the connection is returned as it was: the driver handle
  has received no setter call.
\<close>

theorem pool_setters_error_path:
  "(snd (SetMaxConnectionPool db n) \<noteq> None \<longleftrightarrow> isl (handle (DB db))) \<and>
   (snd (SetMinConnectionPool db n) \<noteq> None \<longleftrightarrow> isl (handle (DB db))) \<and>
   (handle (DB db) = Inl err \<longrightarrow>
      SetMaxConnectionPool db n = (db, Some (''failed to get sql db; '' @ err)) \<and>
      SetMinConnectionPool db n = (db, Some (''failed to get sql db; '' @ err)))"
  by (simp add: SetMaxConnectionPool_def SetMinConnectionPool_def split: sum.splits)

theorem pool_setters_error_path_witness:
  "handle (DB closed_db) = Inl ''invalid db'' \<and>
   SetMaxConnectionPool closed_db 20 = (closed_db, Some ''failed to get sql db; invalid db'') \<and>
   SetMinConnectionPool closed_db 5 = (closed_db, Some ''failed to get sql db; invalid db'')"
  using pool_setters_error_path [of closed_db 20 "''invalid db''"]
    pool_setters_error_path [of closed_db 5 "''invalid db''"]
  by (simp add: closed_db_def)

section \<open>The logger's behaviour\<close>

text \<open>
  C7. For every logger and level, \<open>LogMode\<close> returns the address of a new logger whose level
  is the given one and whose writer, other configuration fields and six format strings are
  those of the receiver. The address is new: the store held nothing there before the call,
  and it is the only address the call adds. The receiver's logger is unchanged, and so is
  every other logger of the store.
\<close>

theorem LogMode_copy_and_replace:
  assumes "deref h l = Some v"
  shows "\<exists>h' a n. LogMode h l lvl = Some (h', a) \<and> deref h' (Some a) = Some n \<and>
      LogLevel (Config n) = lvl \<and>
      Writer n = Writer v \<and>
      SlowThreshold (Config n) = SlowThreshold (Config v) \<and>
      Colorful (Config n) = Colorful (Config v) \<and>
      IgnoreRecordNotFoundError (Config n) = IgnoreRecordNotFoundError (Config v) \<and>
      ParameterizedQueries (Config n) = ParameterizedQueries (Config v) \<and>
      infoStr n = infoStr v \<and> warnStr n = warnStr v \<and> errStr n = errStr v \<and>
      traceStr n = traceStr v \<and> traceWarnStr n = traceWarnStr v \<and>
      traceErrStr n = traceErrStr v \<and>
      deref h (Some a) = None \<and> a = length h \<and> length h' = Suc (length h) \<and>
      Some a \<noteq> l \<and> deref h' l = Some v \<and>
      (\<forall>p. deref h p \<noteq> None \<longrightarrow> deref h' p = deref h p) \<and>
      (\<forall>p. deref h' p \<noteq> None \<longrightarrow> p = Some a \<or> deref h p \<noteq> None)"
proof -
  from assms obtain a0 where l: "l = Some a0" and a0: "a0 < length h" and v: "h ! a0 = v"
    by (auto simp: deref_def split: option.splits if_splits)
  have frame: "\<forall>p. deref h p \<noteq> None \<longrightarrow> deref (h @ [x]) p = deref h p" for x
    by (auto simp: deref_def nth_append split: option.splits)
  have only: "\<forall>p. deref (h @ [x]) p \<noteq> None \<longrightarrow> p = Some (length h) \<or> deref h p \<noteq> None" for x
    by (auto simp: deref_def split: option.splits if_splits)
  show ?thesis
    using assms l a0 v frame only
    by (simp add: LogMode_def Let_def deref_def nth_append)
qed

theorem LogMode_copy_and_replace_witness:
  "deref [plain_logger logger_Warn] (Some 0) = Some (plain_logger logger_Warn) \<and>
   LogMode [plain_logger logger_Warn] (Some 0) logger_Info =
     Some ([plain_logger logger_Warn, plain_logger logger_Info], 1) \<and>
   deref [plain_logger logger_Warn] (Some 1) = None"
proof -
  have d: "deref [plain_logger logger_Warn] (Some 0) = Some (plain_logger logger_Warn)"
    by (simp add: deref_def)
  show ?thesis
    using d LogMode_copy_and_replace [OF d, of logger_Info]
    by (simp add: LogMode_def Let_def deref_def plain_logger_def NewLogger_def)
qed

text \<open>
  C9. \<open>Info\<close>, \<open>Warn\<close> and \<open>Error\<close> write to the writer if and only if the logger's level is
  at least \<open>logger_Info\<close>, \<open>logger_Warn\<close> and \<open>logger_Error\<close> respectively, for every message
  and operand list; \<open>Trace\<close> writes nothing when the level is \<open>logger_Silent\<close> or below.
\<close>

theorem severity_gates:
  "(Info l msg data \<noteq> [] \<longleftrightarrow> LogLevel (Config l) \<ge> logger_Info) \<and>
   (Warn l msg data \<noteq> [] \<longleftrightarrow> LogLevel (Config l) \<ge> logger_Warn) \<and>
   (Error l msg data \<noteq> [] \<longleftrightarrow> LogLevel (Config l) \<ge> logger_Error) \<and>
   (LogLevel (Config l) \<le> logger_Silent \<longrightarrow> Trace l elapsed fc err = [])"
  by (simp add: Info_def Warn_def Error_def Trace_def)

theorem severity_gates_witness:
  "LogLevel (Config (plain_logger logger_Silent)) \<le> logger_Silent \<and>
   Trace (plain_logger logger_Silent) 1000000 (''SELECT 1'', 1) (Some ''boom'') = [] \<and>
   Info (plain_logger logger_Silent) ''hello %s'' [AStr ''world''] = []"
  using severity_gates [of "plain_logger logger_Silent" "''hello %s''" "[AStr ''world'']"
      1000000 "(''SELECT 1'', 1)" "Some ''boom''"]
  by (simp add: plain_logger_def NewLogger_def logger_Silent_def logger_Info_def)

text \<open>
  C10. For every writer, and whatever the store and the connection held before, \<open>SetLogger\<close>
  installs, as the connection's logger and as the mapper's, a new logger on that writer whose
  configuration is fixed: a slow-query threshold of 200 milliseconds, colours on,
  record-not-found errors not ignored, and the level \<open>logger_Warn\<close>.
\<close>

theorem SetLogger_fixed_config:
  "\<exists>h' db' p v. SetLogger h db w = (h', db') \<and> dbLogger db' = Some p \<and>
      Logger (DB db') = DbLogger p \<and> deref h' (Some p) = Some v \<and> Writer v = w \<and>
      Config v = \<lparr>SlowThreshold = 200 * Millisecond, Colorful = True,
                   IgnoreRecordNotFoundError = False, ParameterizedQueries = False,
                   LogLevel = logger_Warn\<rparr> \<and>
      SlowThreshold (Config v) = 200000000 \<and>
      infoStr v = ESC @ ''[0m'' @ ESC @ ''[32m[info] %s'' @ ESC @ ''[0m''"
  by (simp add: SetLogger_def NewLogger_def deref_def Millisecond_def)

text \<open>
  C2, as stated, fails: \<open>Trace\<close> does not fall back to the default format in all other
  cases. At the level \<open>logger_Warn\<close>, a statement that ran for one millisecond without an error
  is not written at all.
\<close>

theorem Trace_default_counterexample:
  "Trace (plain_logger logger_Warn) 1000000 (''SELECT 1'', 1) None = [] \<and>
   Trace (plain_logger logger_Warn) 1000000 (''SELECT 1'', 1) None \<noteq>
     [(traceStr (plain_logger logger_Warn), [LMillis 1000000, LRows 1, LString ''SELECT 1''])]"
  by (simp add: Trace_def plain_logger_def NewLogger_def logger_Warn_def logger_Silent_def
      logger_Error_def logger_Info_def Millisecond_def)

text \<open>
  C2, amended. The selection is gated by the level. At \<open>logger_Silent\<close> or below nothing is
  written. Above it: an error selects the error format; without an error, a nonzero
  threshold that the elapsed time exceeds selects the slow-query format when the level is at
  least \<open>logger_Warn\<close>; otherwise the default format is selected when the level is
  \<open>logger_Info\<close>; and in every remaining case nothing is written.
\<close>

theorem Trace_selection:
  "(LogLevel (Config l) \<le> logger_Silent \<longrightarrow> Trace l elapsed (sql, rows) err = []) \<and>
   (logger_Silent < LogLevel (Config l) \<longrightarrow> err = Some e \<longrightarrow>
      Trace l elapsed (sql, rows) err =
        [(traceErrStr l, [LError e, LMillis elapsed, LRows rows, LString sql])]) \<and>
   (logger_Warn \<le> LogLevel (Config l) \<longrightarrow> err = None \<longrightarrow>
    SlowThreshold (Config l) \<noteq> 0 \<longrightarrow> SlowThreshold (Config l) < elapsed \<longrightarrow>
      Trace l elapsed (sql, rows) err =
        [(traceWarnStr l,
          [LSlowLog (SlowThreshold (Config l)), LMillis elapsed, LRows rows, LString sql])]) \<and>
   (LogLevel (Config l) = logger_Info \<longrightarrow> err = None \<longrightarrow>
    \<not> (SlowThreshold (Config l) \<noteq> 0 \<and> SlowThreshold (Config l) < elapsed) \<longrightarrow>
      Trace l elapsed (sql, rows) err =
        [(traceStr l, [LMillis elapsed, LRows rows, LString sql])]) \<and>
   (logger_Silent < LogLevel (Config l) \<longrightarrow> LogLevel (Config l) \<noteq> logger_Info \<longrightarrow>
    err = None \<longrightarrow>
    \<not> (SlowThreshold (Config l) \<noteq> 0 \<and> SlowThreshold (Config l) < elapsed \<and>
       logger_Warn \<le> LogLevel (Config l)) \<longrightarrow>
      Trace l elapsed (sql, rows) err = [])"
  by (simp add: Trace_def logger_Warn_def logger_Silent_def logger_Error_def logger_Info_def)

theorem Trace_selection_witness:
  "Trace (plain_logger logger_Silent) 1000000 (''SELECT 1'', 1) (Some ''boom'') = [] \<and>
   Trace (plain_logger logger_Error) 1000000 (''SELECT 1'', 1) (Some ''boom'') =
     [(''%s [%.3fms] [rows:%v] %s'',
       [LError ''boom'', LMillis 1000000, LRows 1, LString ''SELECT 1''])] \<and>
   Trace (plain_logger logger_Warn) 300000000 (''SELECT 1'', 1) None =
     [(''%s [%.3fms] [rows:%v] %s'',
       [LSlowLog 200000000, LMillis 300000000, LRows 1, LString ''SELECT 1''])] \<and>
   Trace (plain_logger logger_Info) 1000000 (''SELECT 1'', 1) None =
     [(''[%.3fms] [rows:%v] %s'', [LMillis 1000000, LRows 1, LString ''SELECT 1''])] \<and>
   Trace (plain_logger logger_Error) 300000000 (''SELECT 1'', 1) None = []"
  using Trace_selection [of "plain_logger logger_Silent" 1000000 "''SELECT 1''" 1 "Some ''boom''" "''boom''"]
    Trace_selection [of "plain_logger logger_Error" 1000000 "''SELECT 1''" 1 "Some ''boom''" "''boom''"]
    Trace_selection [of "plain_logger logger_Warn" 300000000 "''SELECT 1''" 1 None "''boom''"]
    Trace_selection [of "plain_logger logger_Info" 1000000 "''SELECT 1''" 1 None "''boom''"]
    Trace_selection [of "plain_logger logger_Error" 300000000 "''SELECT 1''" 1 None "''boom''"]
  by (simp add: plain_logger_def NewLogger_def logger_Warn_def logger_Silent_def
      logger_Error_def logger_Info_def Millisecond_def)

end
